theory Spec2Isabelle
  imports Complex_Main
begin

section \<open>Errors and number primitives\<close>

text \<open>
  The Python floats of \<^verbatim>\<open>mc_unit\<close> are modelled by exact reals: rounding is abstracted
  away, everything else (evaluation order, the exceptions that are raised) is kept.
  The exceptions a call can end with are values of the type \<open>error\<close>; a function that may
  raise returns \<open>error + 'a\<close>, with \<open>Inl\<close> for the exception.
\<close>

datatype error =
    ValueError string
  | ZeroDivisionError
  | TypeError
  | AttributeError
  | InvalidObject

text \<open>Python's \<^verbatim>\<open>x / y\<close> on floats: a zero divisor raises.\<close>

definition float_div :: "real \<Rightarrow> real \<Rightarrow> error + real" where
  "float_div x y = (if y = 0 then Inl ZeroDivisionError else Inr (x / y))"

section \<open>common.py\<close>

subsection \<open>The frozen dataclass Constant\<close>

record Constant =
  "value" :: real
  unit :: string

abbreviation Constant :: "real \<Rightarrow> string \<Rightarrow> Constant" where
  "Constant v u \<equiv> \<lparr>value = v, unit = u\<rparr>"

text \<open>
  The other operand of a binary operator: a plain number, or an object for which
  \<^verbatim>\<open>isinstance(other, Constant)\<close> holds.
\<close>

datatype operand = Num real | Con Constant

definition neg :: "Constant \<Rightarrow> Constant" where
  "neg self = Constant (- value self) (unit self)"

definition pos :: "Constant \<Rightarrow> Constant" where
  "pos self = Constant (value self) (unit self)"

definition abs_c :: "Constant \<Rightarrow> Constant" where
  "abs_c self = Constant (\<bar>value self\<bar>) (unit self)"

definition add :: "Constant \<Rightarrow> operand \<Rightarrow> Constant" where
  "add self other =
     (case other of
        Con k \<Rightarrow> Constant (value self + value k) (unit self)
      | Num n \<Rightarrow> Constant (value self + n) (unit self))"

definition radd :: "Constant \<Rightarrow> operand \<Rightarrow> Constant" where
  "radd self other = add self other"

definition sub :: "Constant \<Rightarrow> operand \<Rightarrow> Constant" where
  "sub self other =
     (case other of
        Con k \<Rightarrow> Constant (value self - value k) (unit self)
      | Num n \<Rightarrow> Constant (value self - n) (unit self))"

definition rsub :: "Constant \<Rightarrow> operand \<Rightarrow> Constant" where
  "rsub self other =
     (case other of
        Con k \<Rightarrow> Constant (value k - value self) (unit self)
      | Num n \<Rightarrow> Constant (n - value self) (unit self))"

definition mul :: "Constant \<Rightarrow> operand \<Rightarrow> Constant" where
  "mul self other =
     (case other of
        Con k \<Rightarrow> Constant (value self * value k) (unit self)
      | Num n \<Rightarrow> Constant (value self * n) (unit self))"

definition rmul :: "Constant \<Rightarrow> operand \<Rightarrow> Constant" where
  "rmul self other = mul self other"

text \<open>
  \<^verbatim>\<open>Constant(..., self.unit)\<close> around a number whose computation may raise: the
  exception passes through, a number becomes the value of the new Constant.
\<close>

definition with_unit :: "string \<Rightarrow> error + real \<Rightarrow> error + Constant" where
  "with_unit u r = (case r of Inl e \<Rightarrow> Inl e | Inr v \<Rightarrow> Inr (Constant v u))"

definition truediv :: "Constant \<Rightarrow> operand \<Rightarrow> error + Constant" where
  "truediv self other =
     (case other of
        Con k \<Rightarrow> with_unit (unit self) (float_div (value self) (value k))
      | Num n \<Rightarrow> with_unit (unit self) (float_div (value self) n))"

definition rtruediv :: "Constant \<Rightarrow> operand \<Rightarrow> error + Constant" where
  "rtruediv self other =
     (case other of
        Con k \<Rightarrow> with_unit (unit self) (float_div (value k) (value self))
      | Num n \<Rightarrow> with_unit (unit self) (float_div n (value self)))"

text \<open>
  \<^verbatim>\<open>__pow__\<close> has no \<^verbatim>\<open>isinstance\<close> test: it evaluates \<^verbatim>\<open>self.value ** exponent\<close>
  whatever the exponent is. With a Constant exponent the float's own power does not
  apply and Constant defines no \<^verbatim>\<open>__rpow__\<close>, so Python raises TypeError. With a plain
  number the result is that of Python's power on numbers, which is taken as the
  parameter \<open>float_pow\<close> (it may itself raise, for instance on \<^verbatim>\<open>0.0 ** -1\<close>).
\<close>

definition pow :: "(real \<Rightarrow> real \<Rightarrow> error + real) \<Rightarrow> Constant \<Rightarrow> operand \<Rightarrow> error + Constant" where
  "pow float_pow self exponent =
     (case exponent of
        Con k \<Rightarrow> Inl TypeError
      | Num n \<Rightarrow> with_unit (unit self) (float_pow (value self) n))"

definition POW2 :: "real \<Rightarrow> real" where
  "POW2 x = x * x"

definition POW3 :: "real \<Rightarrow> real" where
  "POW3 x = x * x * x"

definition POW4 :: "real \<Rightarrow> real" where
  "POW4 x = POW2 x * POW2 x"

section \<open>units.py\<close>

subsection \<open>Unit systems and their conversion ratios\<close>

text \<open>
  An instance of a concrete unit system carries five base constants and eight quantity
  factors. The attribute \<^verbatim>\<open>length\<close> is the field \<open>length'\<close>.
\<close>

record UnitSystem =
  c :: Constant
  G :: Constant
  kb :: Constant
  Msun :: Constant
  MeV :: Constant
  length' :: Constant
  time :: Constant
  density :: Constant
  mass :: Constant
  energy :: Constant
  pressure :: Constant
  temperature :: Constant
  chemical_potential :: Constant

definition conv_length :: "UnitSystem \<Rightarrow> UnitSystem \<Rightarrow> error + real" where
  "conv_length src tar = float_div (value (length' tar)) (value (length' src))"

definition conv_time :: "UnitSystem \<Rightarrow> UnitSystem \<Rightarrow> error + real" where
  "conv_time src tar = float_div (value (time tar)) (value (time src))"

text \<open>
  \<^verbatim>\<open>tar.length.value / src.length.value * src.time.value / tar.time.value\<close> associates to
  the left: the first quotient is multiplied by the source time, and that product is
  divided by the target time.
\<close>

definition conv_velocity :: "UnitSystem \<Rightarrow> UnitSystem \<Rightarrow> error + real" where
  "conv_velocity src tar =
     (case float_div (value (length' tar)) (value (length' src)) of
        Inl e \<Rightarrow> Inl e
      | Inr r \<Rightarrow> float_div (r * value (time src)) (value (time tar)))"

definition conv_density :: "UnitSystem \<Rightarrow> UnitSystem \<Rightarrow> error + real" where
  "conv_density src tar = float_div (value (density tar)) (value (density src))"

definition conv_mass :: "UnitSystem \<Rightarrow> UnitSystem \<Rightarrow> error + real" where
  "conv_mass src tar = float_div (value (mass tar)) (value (mass src))"

definition conv_energy :: "UnitSystem \<Rightarrow> UnitSystem \<Rightarrow> error + real" where
  "conv_energy src tar = float_div (value (energy tar)) (value (energy src))"

definition conv_entropy :: "UnitSystem \<Rightarrow> UnitSystem \<Rightarrow> error + real" where
  "conv_entropy src tar = float_div (value (kb tar)) (value (kb src))"

definition conv_pressure :: "UnitSystem \<Rightarrow> UnitSystem \<Rightarrow> error + real" where
  "conv_pressure src tar = float_div (value (pressure tar)) (value (pressure src))"

definition conv_temperature :: "UnitSystem \<Rightarrow> UnitSystem \<Rightarrow> error + real" where
  "conv_temperature src tar = float_div (value (temperature tar)) (value (temperature src))"

definition conv_chemical_potential :: "UnitSystem \<Rightarrow> UnitSystem \<Rightarrow> error + real" where
  "conv_chemical_potential src tar =
     float_div (value (chemical_potential tar)) (value (chemical_potential src))"

subsection \<open>The concrete unit systems\<close>

text \<open>
  Each definition is the result of the class's \<^verbatim>\<open>__init__\<close>. The divisions in the
  initialisers have literal, nonzero divisors, so none of them raises.
\<close>

definition CGS :: UnitSystem where
  "CGS = \<lparr>
     c = Constant (2.99792458 * 10 ^ 10) ''cm s^-1'',
     G = Constant (6.67408 / 10 ^ 8) ''cm^3 g^-1 s^-2'',
     kb = Constant (1.38064852 / 10 ^ 16) ''erg K^-1'',
     Msun = Constant (1.98848 * 10 ^ 33) ''g'',
     MeV = Constant (1.6021766208 / 10 ^ 6) ''erg'',
     length' = Constant 1 ''cm'',
     time = Constant 1 ''s'',
     density = Constant 1 ''g cm^-3'',
     mass = Constant 1 ''g'',
     energy = Constant 1 ''erg'',
     pressure = Constant 1 ''erg cm^-3'',
     temperature = Constant 1 ''K'',
     chemical_potential = Constant 1 ''erg'' \<rparr>"

definition SI :: UnitSystem where
  "SI = (let cgs = CGS in \<lparr>
     c = Constant (value (c cgs) / 100) ''m s^-1'',
     G = Constant (value (G cgs) * POW3 (1 / 100) / (1 / 1000)) ''m^3 kg^-1 s^-2'',
     kb = Constant (value (kb cgs) * (1 / 10 ^ 7)) ''J K^-1'',
     Msun = Constant (value (Msun cgs) / 1000) ''kg'',
     MeV = Constant (value (MeV cgs) * (1 / 10 ^ 7)) ''J'',
     length' = Constant 0.01 ''m'',
     time = Constant 1 ''s'',
     density = Constant 1000 ''kg m^-3'',
     mass = Constant 0.001 ''kg'',
     energy = Constant (1 / 10 ^ 7) ''J'',
     pressure = Constant 0.1 ''Pa'',
     temperature = Constant 1 ''K'',
     chemical_potential = Constant (1 / 10 ^ 7) ''J'' \<rparr>)"

definition GeometricKilometer :: UnitSystem where
  "GeometricKilometer = (let cgs = CGS in \<lparr>
     c = Constant 1 ''-'',
     G = Constant 1 ''-'',
     kb = Constant 1 ''-'',
     Msun = Constant (value (Msun cgs) * value (G cgs) / POW2 (value (c cgs)) * (1 / 10 ^ 5)) ''km'',
     MeV = Constant (value (MeV cgs) * value (G cgs) / POW4 (value (c cgs)) * (1 / 10 ^ 5)) ''km'',
     length' = Constant (1 / 10 ^ 5) ''km'',
     time = Constant (value (c cgs) * (1 / 10 ^ 5)) ''km'',
     density = Constant (10 ^ 15) ''km^-3'',
     mass = Constant (value (G cgs) / POW2 (value (c cgs)) * (1 / 10 ^ 5)) ''km'',
     energy = Constant (value (G cgs) / POW4 (value (c cgs)) * (1 / 10 ^ 5)) ''km'',
     pressure = Constant (value (G cgs) / POW4 (value (c cgs)) * 10 ^ 10) ''km^-2'',
     temperature =
       Constant (value (kb cgs) * value (G cgs) / POW4 (value (c cgs)) * (1 / 10 ^ 5)) ''km'',
     chemical_potential = Constant (value (kb cgs) / value (MeV cgs)) ''MeV'' \<rparr>)"

definition GeometricSolar :: UnitSystem where
  "GeometricSolar = (let cgs = CGS in \<lparr>
     c = Constant 1 ''-'',
     G = Constant 1 ''-'',
     kb = Constant 1 ''-'',
     Msun = Constant 1 ''-'',
     MeV = Constant (value (MeV cgs) / POW2 (value (c cgs))) ''Msun'',
     length' = Constant (POW2 (value (c cgs)) / (value (G cgs) * value (Msun cgs))) ''Msun'',
     time = Constant (POW3 (value (c cgs)) / (value (G cgs) * value (Msun cgs))) ''Msun'',
     density =
       Constant (POW3 ((value (G cgs) * value (Msun cgs)) / POW2 (value (c cgs)))) ''Msun^-3'',
     mass = Constant (1 / value (Msun cgs)) ''Msun'',
     energy = Constant (1 / (value (Msun cgs) * POW2 (value (c cgs)))) ''Msun'',
     pressure =
       Constant (POW3 (value (G cgs) / POW2 (value (c cgs))) *
                 POW2 (value (Msun cgs) / value (c cgs))) ''Msun^-2'',
     temperature = Constant (value (kb cgs) / value (MeV cgs)) ''MeV'',
     chemical_potential = Constant (value (kb cgs) / value (MeV cgs)) ''MeV'' \<rparr>)"

definition Nuclear :: UnitSystem where
  "Nuclear = (let cgs = CGS in \<lparr>
     c = Constant 1 ''-'',
     G = Constant (value (G cgs) * value (MeV cgs) / POW4 (value (c cgs)) * 10 ^ 13) ''fm'',
     kb = Constant 1 ''-'',
     Msun = Constant (value (Msun cgs) * POW2 (value (c cgs)) / value (MeV cgs)) ''MeV'',
     MeV = Constant 1 ''MeV'',
     length' = Constant (10 ^ 13) ''fm'',
     time = Constant (value (c cgs) * 10 ^ 13) ''fm'',
     density = Constant (1 / 10 ^ 39) ''fm^-3'',
     mass = Constant (POW2 (value (c cgs)) / value (MeV cgs)) ''MeV'',
     energy = Constant (1 / value (MeV cgs)) ''MeV'',
     pressure = Constant ((1 / 10 ^ 39) / value (MeV cgs)) ''MeV fm^-3'',
     temperature = Constant (value (kb cgs) / value (MeV cgs)) ''MeV'',
     chemical_potential = Constant (value (kb cgs) / value (MeV cgs)) ''MeV'' \<rparr>)"

text \<open>The module-level instances, and the list of all of them.\<close>

definition us_CGS :: UnitSystem where
  "us_CGS = CGS"

definition us_SI :: UnitSystem where
  "us_SI = SI"

definition us_GeometricKilometer :: UnitSystem where
  "us_GeometricKilometer = GeometricKilometer"

definition us_GeometricSolar :: UnitSystem where
  "us_GeometricSolar = GeometricSolar"

definition us_Nuclear :: UnitSystem where
  "us_Nuclear = Nuclear"

definition unit_systems :: "UnitSystem list" where
  "unit_systems = [us_CGS, us_SI, us_GeometricKilometer, us_GeometricSolar, us_Nuclear]"

subsection \<open>Values, containers and the object store\<close>

text \<open>
  A value handed to a conversion is a scalar (a Python or numpy number) or a reference
  to a container object in a store. The containers are
  \<^item> an instance of exactly \<^verbatim>\<open>numpy.ndarray\<close> of a numeric dtype: its shape and its
    elements in row-major order (a 0-d array has the shape \<open>[]\<close> and one element);
  \<^item> an instance of exactly \<^verbatim>\<open>list\<close>, of numbers;
  \<^item> an instance of exactly \<^verbatim>\<open>tuple\<close>, of numbers;
  \<^item> an instance of a subclass of \<^verbatim>\<open>list\<close> or \<^verbatim>\<open>tuple\<close> (a namedtuple, say): its
    items, and what the call of its class on an iterable of numbers does. The class of a
    two-field namedtuple, called with one argument, raises TypeError.

  The store is addressed by position; \<open>alloc\<close> places a new object behind all
  existing ones.
\<close>

datatype container =
    NdArray "nat list" "real list"
  | PyList "real list"
  | PyTuple "real list"
  | Instance "real list \<Rightarrow> error + container" "real list"

type_synonym store = "container list"

datatype pyvalue = Scalar real | Ref nat

definition alloc :: "container \<Rightarrow> store \<Rightarrow> pyvalue \<times> store" where
  "alloc obj h = (Ref (length h), h @ [obj])"

text \<open>
  The last lines of \<^verbatim>\<open>__call__\<close>. The \<^verbatim>\<open>isinstance\<close> tests read the class of the
  object behind the reference.
  \<^item> \<^verbatim>\<open>value * factor\<close> on an array is numpy's: a new array of the same shape, except
    that the product of a 0-d array and a number is a numpy scalar, not an array.
  \<^item> \<^verbatim>\<open>type(value)(v * factor for v in value)\<close> on a list is a new list. On a tuple it
    is a new tuple, except that CPython has one empty tuple: for the input \<^verbatim>\<open>()\<close> the
    result is the input object itself. On an instance of a subclass it is whatever the
    class does with the generator.
  \<^item> Anything else is multiplied as a scalar.

  Nothing assigns into an existing object. A reference to no object and an array whose
  elements do not fill its shape cannot be built in Python; the model answers both with
  \<open>InvalidObject\<close>.
\<close>

definition apply_factor :: "pyvalue \<Rightarrow> real \<Rightarrow> store \<Rightarrow> error + pyvalue \<times> store" where
  "apply_factor val factor h =
     (case val of
        Ref a \<Rightarrow>
          (if a < length h then
             (case h ! a of
                NdArray shape xs \<Rightarrow>
                  (if length xs \<noteq> prod_list shape then Inl InvalidObject
                   else if shape = [] then Inr (Scalar (hd xs * factor), h)
                   else Inr (alloc (NdArray shape (map (\<lambda>v. v * factor) xs)) h))
              | PyList xs \<Rightarrow> Inr (alloc (PyList (map (\<lambda>v. v * factor) xs)) h)
              | PyTuple xs \<Rightarrow>
                  (if xs = [] then Inr (Ref a, h)
                   else Inr (alloc (PyTuple (map (\<lambda>v. v * factor) xs)) h))
              | Instance cls xs \<Rightarrow>
                  (case cls (map (\<lambda>v. v * factor) xs) of
                     Inl e \<Rightarrow> Inl e
                   | Inr obj \<Rightarrow> Inr (alloc obj h)))
           else Inl InvalidObject)
      | Scalar x \<Rightarrow> Inr (Scalar (x * factor), h))"

subsection \<open>ConversionProxy\<close>

text \<open>
  What a caller may pass where a unit system is expected: a unit system, or some other
  value.
\<close>

datatype pyobj = System UnitSystem | Value pyvalue

record ConversionProxy =
  source_unit :: UnitSystem
  target_unit :: UnitSystem

definition ConversionProxy_init :: "pyobj \<Rightarrow> pyobj \<Rightarrow> error + ConversionProxy" where
  "ConversionProxy_init source target =
     (case source of
        Value v \<Rightarrow> Inl (ValueError ''source_unit must be a UnitSystem'')
      | System s \<Rightarrow>
          (case target of
             Value v \<Rightarrow> Inl (ValueError ''target_unit must be a UnitSystem'')
           | System t \<Rightarrow> Inr \<lparr>source_unit = s, target_unit = t\<rparr>))"

subsection \<open>The direct-call converter\<close>

datatype result =
    Factors "(string \<times> Constant) list"
  | Proxy ConversionProxy
  | Converted pyvalue

text \<open>\<^verbatim>\<open>getattr(self, name)\<close> on a unit system: the instance attributes by name.\<close>

definition getattr_us :: "UnitSystem \<Rightarrow> string \<Rightarrow> error + Constant" where
  "getattr_us self name =
     (case map_of
        [(''c'', c self), (''G'', G self), (''kb'', kb self), (''Msun'', Msun self),
         (''MeV'', MeV self), (''length'', length' self), (''time'', time self),
         (''density'', density self), (''mass'', mass self), (''energy'', energy self),
         (''pressure'', pressure self), (''temperature'', temperature self),
         (''chemical_potential'', chemical_potential self)] name of
        None \<Rightarrow> Inl AttributeError
      | Some k \<Rightarrow> Inr k)"

text \<open>
  The dict comprehension \<^verbatim>\<open>{name: getattr(self, name) for name in [...]}\<close>. The names
  are distinct, so the dict is the list of its items in insertion order.
\<close>

fun factor_dict :: "UnitSystem \<Rightarrow> string list \<Rightarrow> error + (string \<times> Constant) list" where
  "factor_dict self [] = Inr []"
| "factor_dict self (name # names) =
     (case getattr_us self name of
        Inl e \<Rightarrow> Inl e
      | Inr k \<Rightarrow>
          (case factor_dict self names of
             Inl e \<Rightarrow> Inl e
           | Inr d \<Rightarrow> Inr ((name, k) # d)))"

definition factor_names :: "string list" where
  "factor_names =
     [''c'', ''G'', ''kb'', ''Msun'', ''MeV'',
      ''length'', ''time'', ''density'', ''mass'', ''energy'',
      ''pressure'', ''temperature'', ''chemical_potential'']"

definition quantity_map :: "UnitSystem \<Rightarrow> string \<rightharpoonup> (UnitSystem \<Rightarrow> error + real)" where
  "quantity_map self =
     map_of
       [(''length'', conv_length self),
        (''time'', conv_time self),
        (''velocity'', conv_velocity self),
        (''density'', conv_density self),
        (''mass'', conv_mass self),
        (''energy'', conv_energy self),
        (''entropy'', conv_entropy self),
        (''pressure'', conv_pressure self),
        (''temperature'', conv_temperature self),
        (''chemical_potential'', conv_chemical_potential self)]"

text \<open>
  \<^verbatim>\<open>UnitSystem.__call__\<close>. \<open>None\<close> is Python's \<^verbatim>\<open>None\<close> for each of the three optional
  arguments. The checks come in the order of the source: no target, no quantity, unknown
  quantity, no value. A conversion method applied to a target that is not a unit system
  fails on its first attribute access.
\<close>

definition call ::
  "UnitSystem \<Rightarrow> pyobj option \<Rightarrow> string option \<Rightarrow> pyvalue option \<Rightarrow> store
     \<Rightarrow> error + result \<times> store" where
  "call self target_system quantity val h =
     (case target_system of
        None \<Rightarrow>
          (case factor_dict self factor_names of
             Inl e \<Rightarrow> Inl e
           | Inr d \<Rightarrow> Inr (Factors d, h))
      | Some target \<Rightarrow>
          (case quantity of
             None \<Rightarrow>
               (case ConversionProxy_init (System self) target of
                  Inl e \<Rightarrow> Inl e
                | Inr p \<Rightarrow> Inr (Proxy p, h))
           | Some q \<Rightarrow>
               (case quantity_map self q of
                  None \<Rightarrow> Inl (ValueError (''Unknown quantity '' @ [CHR 0x27] @ q @ [CHR 0x27]))
                | Some conv \<Rightarrow>
                    (case val of
                       None \<Rightarrow> Inl (ValueError ''Must provide a value to convert'')
                     | Some v \<Rightarrow>
                         (case (case target of
                                  System tar \<Rightarrow> conv tar
                                | Value w \<Rightarrow> Inl AttributeError) of
                            Inl e \<Rightarrow> Inl e
                          | Inr factor \<Rightarrow>
                              (case apply_factor v factor h of
                                 Inl e \<Rightarrow> Inl e
                               | Inr (r, h') \<Rightarrow> Inr (Converted r, h')))))))"

text \<open>
  \<^verbatim>\<open>ConversionProxy.__getattr__\<close> returns the closure \<^verbatim>\<open>converter\<close>, here a function of
  the value (and of the store the call runs in).
\<close>

definition getattr ::
  "ConversionProxy \<Rightarrow> string \<Rightarrow> (pyvalue option \<Rightarrow> store \<Rightarrow> error + result \<times> store)" where
  "getattr self quantity =
     (\<lambda>val h. call (source_unit self) (Some (System (target_unit self))) (Some quantity) val h)"

text \<open>
  Attribute access \<^verbatim>\<open>proxy.name\<close>. Python consults \<^verbatim>\<open>__getattr__\<close> only when the
  ordinary lookup finds nothing: the two attributes that \<^verbatim>\<open>__init__\<close> stores on the
  instance come first, then the names the class and \<^verbatim>\<open>object\<close> define (they depend on
  the interpreter and are the parameter \<open>class_attr\<close>).
\<close>

datatype attribute =
    Endpoint UnitSystem
  | ClassAttribute string
  | Converter "pyvalue option \<Rightarrow> store \<Rightarrow> error + result \<times> store"

definition getattribute :: "(string \<Rightarrow> bool) \<Rightarrow> ConversionProxy \<Rightarrow> string \<Rightarrow> attribute" where
  "getattribute class_attr self name =
     (if name = ''source_unit'' then Endpoint (source_unit self)
      else if name = ''target_unit'' then Endpoint (target_unit self)
      else if class_attr name then ClassAttribute name
      else Converter (getattr self name))"

text \<open>
  Calling what the attribute access returned with one argument. An endpoint is a unit
  system, and \<^verbatim>\<open>system(x)\<close> is \<^verbatim>\<open>__call__\<close> with \<^verbatim>\<open>x\<close> as the target. What a class
  attribute does when called is outside this development.
\<close>

definition call_endpoint ::
  "UnitSystem \<Rightarrow> pyvalue option \<Rightarrow> store \<Rightarrow> error + result \<times> store" where
  "call_endpoint us arg h = call us (map_option Value arg) None None h"

subsection \<open>Auxiliary notions for the statements\<close>

text \<open>The keys of \<open>quantity_map\<close>: the closed set of quantity names.\<close>

definition quantities :: "string list" where
  "quantities =
     [''length'', ''time'', ''velocity'', ''density'', ''mass'', ''energy'', ''entropy'',
      ''pressure'', ''temperature'', ''chemical_potential'']"

text \<open>
  Every stored factor that some conversion divides by is nonzero. The five concrete
  systems have this property (\<open>unit_systems_nonzero\<close> below).
\<close>

definition nonzero_factors :: "UnitSystem \<Rightarrow> bool" where
  "nonzero_factors us \<longleftrightarrow>
     value (kb us) \<noteq> 0 \<and> value (length' us) \<noteq> 0 \<and> value (time us) \<noteq> 0 \<and>
     value (density us) \<noteq> 0 \<and> value (mass us) \<noteq> 0 \<and> value (energy us) \<noteq> 0 \<and>
     value (pressure us) \<noteq> 0 \<and> value (temperature us) \<noteq> 0 \<and>
     value (chemical_potential us) \<noteq> 0"

text \<open>
  The keys of the mapping that a call returned (no keys for any other outcome).
\<close>

definition dict_keys :: "error + result \<times> store \<Rightarrow> string list" where
  "dict_keys r = (case r of Inr (Factors d, h) \<Rightarrow> map fst d | _ \<Rightarrow> [])"

text \<open>
  The number a binary operator of Constant computes with: \<^verbatim>\<open>other.value\<close> for a
  Constant, \<^verbatim>\<open>other\<close> itself for a plain number.
\<close>

definition operand_value :: "operand \<Rightarrow> real" where
  "operand_value other = (case other of Con k \<Rightarrow> value k | Num n \<Rightarrow> n)"

section \<open>Basic facts\<close>

lemmas system_defs =
  us_CGS_def us_SI_def us_GeometricKilometer_def us_GeometricSolar_def us_Nuclear_def
  CGS_def SI_def GeometricKilometer_def GeometricSolar_def Nuclear_def
  POW2_def POW3_def POW4_def Let_def

lemma nonzero_CGS: "nonzero_factors us_CGS"
  by (simp add: nonzero_factors_def system_defs)

lemma nonzero_SI: "nonzero_factors us_SI"
  by (simp add: nonzero_factors_def system_defs)

lemma nonzero_GK: "nonzero_factors us_GeometricKilometer"
  by (simp add: nonzero_factors_def system_defs)

lemma nonzero_GS: "nonzero_factors us_GeometricSolar"
  by (simp add: nonzero_factors_def system_defs)

lemma nonzero_N: "nonzero_factors us_Nuclear"
  by (simp add: nonzero_factors_def system_defs)

lemma unit_systems_nonzero: "A \<in> set unit_systems \<Longrightarrow> nonzero_factors A"
  using nonzero_CGS nonzero_SI nonzero_GK nonzero_GS nonzero_N
  by (auto simp: unit_systems_def)

lemma quantity_map_None: "q \<notin> set quantities \<Longrightarrow> quantity_map A q = None"
  by (simp add: quantity_map_def quantities_def)

lemma quantity_map_simps:
  "quantity_map A ''length'' = Some (conv_length A)"
  "quantity_map A ''time'' = Some (conv_time A)"
  "quantity_map A ''velocity'' = Some (conv_velocity A)"
  "quantity_map A ''density'' = Some (conv_density A)"
  "quantity_map A ''mass'' = Some (conv_mass A)"
  "quantity_map A ''energy'' = Some (conv_energy A)"
  "quantity_map A ''entropy'' = Some (conv_entropy A)"
  "quantity_map A ''pressure'' = Some (conv_pressure A)"
  "quantity_map A ''temperature'' = Some (conv_temperature A)"
  "quantity_map A ''chemical_potential'' = Some (conv_chemical_potential A)"
  by (simp_all add: quantity_map_def)

lemma quantities_cases:
  "q \<in> set quantities \<Longrightarrow>
     q = ''length'' \<or> q = ''time'' \<or> q = ''velocity'' \<or> q = ''density'' \<or> q = ''mass'' \<or>
     q = ''energy'' \<or> q = ''entropy'' \<or> q = ''pressure'' \<or> q = ''temperature'' \<or>
     q = ''chemical_potential''"
  by (simp add: quantities_def)

lemmas conv_defs =
  conv_length_def conv_time_def conv_velocity_def conv_density_def conv_mass_def
  conv_energy_def conv_entropy_def conv_pressure_def conv_temperature_def
  conv_chemical_potential_def

lemma conv_ratio:
  assumes "q \<in> set quantities" "nonzero_factors A" "nonzero_factors B"
  shows "\<exists>f g r. quantity_map A q = Some f \<and> quantity_map B q = Some g \<and>
           r \<noteq> 0 \<and> f B = Inr r \<and> g A = Inr (1 / r)"
  using quantities_cases [OF assms(1)] assms(2,3)
  apply (elim disjE)
  apply (simp_all add: quantity_map_simps nonzero_factors_def conv_defs float_div_def)
  done

lemma conv_self:
  assumes "q \<in> set quantities" "nonzero_factors A"
  shows "\<exists>f. quantity_map A q = Some f \<and> f A = Inr 1"
  using quantities_cases [OF assms(1)] assms(2)
  apply (elim disjE)
  apply (simp_all add: quantity_map_simps nonzero_factors_def conv_defs float_div_def)
  done

lemma dom_quantity_map: "dom (quantity_map A) = set quantities"
proof (rule set_eqI)
  fix q
  show "q \<in> dom (quantity_map A) \<longleftrightarrow> q \<in> set quantities"
  proof (cases "q \<in> set quantities")
    case True
    from quantities_cases [OF True] have "\<exists>f. quantity_map A q = Some f"
      by (elim disjE) (simp_all add: quantity_map_simps)
    then obtain f where "quantity_map A q = Some f" ..
    with True show ?thesis by (simp add: domIff)
  next
    case False
    then have "quantity_map A q = None" by (rule quantity_map_None)
    with False show ?thesis by (simp add: domIff)
  qed
qed

lemma call_scalar:
  "quantity_map A q = Some f \<Longrightarrow> f B = Inr r \<Longrightarrow>
     call A (Some (System B)) (Some q) (Some (Scalar x)) h = Inr (Converted (Scalar (x * r)), h)"
  by (simp add: call_def apply_factor_def)

lemma velocity_ratio:
  "value (length' src) \<noteq> 0 \<Longrightarrow> value (time tar) \<noteq> 0 \<Longrightarrow>
     conv_velocity src tar =
       Inr ((value (length' tar) / value (length' src)) * (value (time src) / value (time tar)))"
  by (simp add: conv_velocity_def float_div_def)

lemma entropy_ratio:
  "value (kb src) \<noteq> 0 \<Longrightarrow> conv_entropy src tar = Inr (value (kb tar) / value (kb src))"
  by (simp add: conv_entropy_def float_div_def)

lemma factor_dict_names:
  "factor_dict S factor_names =
     Inr [(''c'', c S), (''G'', G S), (''kb'', kb S), (''Msun'', Msun S), (''MeV'', MeV S),
          (''length'', length' S), (''time'', time S), (''density'', density S),
          (''mass'', mass S), (''energy'', energy S), (''pressure'', pressure S),
          (''temperature'', temperature S), (''chemical_potential'', chemical_potential S)]"
  by (simp add: factor_names_def getattr_us_def)

section \<open>The claims\<close>

subsection \<open>C1: the dump of constants and factors\<close>

text \<open>
  Claim C1, as amended. For every unit system \<open>S\<close>, the call with no target returns,
  whatever the other two arguments are, the mapping from the thirteen names
  c, G, kb, Msun, MeV, length, time, density, mass, energy, pressure, temperature,
  chemical_potential to the attributes of \<open>S\<close> of these names. The keys are this fixed
  list of 13 distinct names, and the call leaves the store as it was.
\<close>

theorem factor_dump:
  "call S None quantity val h =
     Inr (Factors
       [(''c'', c S), (''G'', G S), (''kb'', kb S), (''Msun'', Msun S), (''MeV'', MeV S),
        (''length'', length' S), (''time'', time S), (''density'', density S),
        (''mass'', mass S), (''energy'', energy S), (''pressure'', pressure S),
        (''temperature'', temperature S), (''chemical_potential'', chemical_potential S)], h) \<and>
   dict_keys (call S None quantity val h) = factor_names \<and>
   distinct factor_names \<and> length factor_names = 13"
proof -
  have 1: "call S None quantity val h =
     Inr (Factors
       [(''c'', c S), (''G'', G S), (''kb'', kb S), (''Msun'', Msun S), (''MeV'', MeV S),
        (''length'', length' S), (''time'', time S), (''density'', density S),
        (''mass'', mass S), (''energy'', energy S), (''pressure'', pressure S),
        (''temperature'', temperature S), (''chemical_potential'', chemical_potential S)], h)"
    by (simp add: call_def factor_dict_names)
  have 2: "dict_keys (call S None quantity val h) = factor_names"
    unfolding 1 by (simp add: dict_keys_def factor_names_def)
  have 3: "distinct factor_names" by (simp add: factor_names_def)
  have 4: "length factor_names = 13" by (simp add: factor_names_def)
  from 1 2 3 4 show ?thesis by blast
qed

text \<open>
  The theorem at the CGS instance: its dump has the thirteen keys.
\<close>

theorem factor_dump_witness:
  "dict_keys (call us_CGS None None None []) = factor_names \<and>
   length (dict_keys (call us_CGS None None None [])) = 13"
proof -
  note T = factor_dump [of us_CGS None None "[]"]
  from T [THEN conjunct2, THEN conjunct1] T [THEN conjunct2, THEN conjunct2, THEN conjunct2]
  show ?thesis by simp
qed

text \<open>
  Claim C1 as stated counts twelve keys. The mapping returned by the CGS instance has
  thirteen.
\<close>

theorem twelve_keys_counterexample:
  "length (dict_keys (call us_CGS None None None [])) = 13 \<and>
   length (dict_keys (call us_CGS None None None [])) \<noteq> 12"
  by (simp add: call_def factor_dict_names dict_keys_def)

subsection \<open>C2: a missing value\<close>

text \<open>
  Claim C2, as amended. For every source system, every target and every quantity name
  of the closed set, the call with that target and quantity and with \<^verbatim>\<open>value=None\<close>
  fails with the ValueError "Must provide a value to convert" and returns nothing.
\<close>

theorem missing_value:
  assumes "q \<in> set quantities"
  shows "call A (Some target) (Some q) None h =
           Inl (ValueError ''Must provide a value to convert'')"
proof -
  from assms have "q \<in> dom (quantity_map A)"
    using quantities_cases [OF assms] by (elim disjE) (simp_all add: quantity_map_simps dom_def)
  then obtain f where "quantity_map A q = Some f" by blast
  then show ?thesis by (simp add: call_def)
qed

text \<open>
  The theorem at the quantity pressure, from CGS to SI.
\<close>

theorem missing_value_witness:
  "''pressure'' \<in> set quantities \<and>
   call us_CGS (Some (System us_SI)) (Some ''pressure'') None [] =
     Inl (ValueError ''Must provide a value to convert'')"
proof -
  have q: "''pressure'' \<in> set quantities" by (simp add: quantities_def)
  from q missing_value [OF q, of us_CGS "System us_SI" "[]"] show ?thesis by simp
qed

text \<open>
  Claim C2 as stated speaks of every quantity name. The membership test on the name
  comes before the test on the value, so an unknown name with no value fails with the
  unknown-quantity message, not with the one that asks for a value.
\<close>

theorem missing_value_counterexample:
  "call us_CGS (Some (System us_SI)) (Some ''bogus'') None [] =
     Inl (ValueError (''Unknown quantity '' @ [CHR 0x27] @ ''bogus'' @ [CHR 0x27])) \<and>
   call us_CGS (Some (System us_SI)) (Some ''bogus'') None [] \<noteq>
     Inl (ValueError ''Must provide a value to convert'')"
  by (simp add: call_def quantity_map_None quantities_def)

subsection \<open>C3: the binary operators of Constant\<close>

text \<open>
  Claim C3, as amended. Addition, subtraction and multiplication and their reflected
  forms accept a Constant or a plain number as the other operand and always return a
  new Constant labelled \<^verbatim>\<open>self.unit\<close>. Division and reflected division do so whenever
  the divisor is not zero. Power with a plain-number exponent returns a Constant
  labelled \<^verbatim>\<open>self.unit\<close> whenever Python's power on the two numbers returns.
\<close>

theorem binary_operator_labels:
  "add self other = Constant (value self + operand_value other) (unit self) \<and>
   radd self other = Constant (value self + operand_value other) (unit self) \<and>
   sub self other = Constant (value self - operand_value other) (unit self) \<and>
   rsub self other = Constant (operand_value other - value self) (unit self) \<and>
   mul self other = Constant (value self * operand_value other) (unit self) \<and>
   rmul self other = Constant (value self * operand_value other) (unit self) \<and>
   (operand_value other \<noteq> 0 \<longrightarrow>
      truediv self other = Inr (Constant (value self / operand_value other) (unit self))) \<and>
   (value self \<noteq> 0 \<longrightarrow>
      rtruediv self other = Inr (Constant (operand_value other / value self) (unit self))) \<and>
   (float_pow (value self) n = Inr v \<longrightarrow>
      pow float_pow self (Num n) = Inr (Constant v (unit self)))"
  by (cases other)
    (simp_all add: add_def radd_def sub_def rsub_def mul_def rmul_def truediv_def rtruediv_def
      pow_def with_unit_def float_div_def operand_value_def)

text \<open>
  The theorem at the Constants 2 "u" and 3 "w" and at the plain number 3: the label of
  the right operand is dropped.
\<close>

theorem binary_operator_labels_witness:
  "add (Constant 2 ''u'') (Con (Constant 3 ''w'')) = Constant 5 ''u'' \<and>
   rsub (Constant 2 ''u'') (Num 3) = Constant 1 ''u'' \<and>
   operand_value (Con (Constant 3 ''w'')) \<noteq> 0 \<and>
   truediv (Constant 2 ''u'') (Con (Constant 3 ''w'')) = Inr (Constant (2 / 3) ''u'') \<and>
   value (Constant 2 ''u'') \<noteq> 0 \<and>
   rtruediv (Constant 2 ''u'') (Con (Constant 3 ''w'')) = Inr (Constant (3 / 2) ''u'') \<and>
   pow (\<lambda>x y. Inr (x powr y)) (Constant 2 ''u'') (Num 2) = Inr (Constant 4 ''u'')"
  using binary_operator_labels [of "Constant 2 ''u''" "Con (Constant 3 ''w'')"
      "\<lambda>x y. Inr (x powr y)" 2 4]
    binary_operator_labels [of "Constant 2 ''u''" "Num 3" "\<lambda>x y. Inr (x powr y)" 2 4]
  by (simp add: operand_value_def)

text \<open>
  Claim C3 as stated lets power take a Constant as its other operand and lets every
  operator always return a Constant. A Constant exponent raises TypeError, and a zero
  divisor raises ZeroDivisionError in both forms of division.
\<close>

theorem binary_operator_counterexample:
  "pow (\<lambda>x y. Inr (x powr y)) (Constant 2 ''u'') (Con (Constant 3 ''u'')) = Inl TypeError \<and>
   truediv (Constant 1 ''u'') (Num 0) = Inl ZeroDivisionError \<and>
   rtruediv (Constant 0 ''u'') (Num 1) = Inl ZeroDivisionError"
  by (simp add: pow_def truediv_def rtruediv_def with_unit_def float_div_def)

subsection \<open>C4: converting a system to itself\<close>

text \<open>
  Claim C4. For every concrete unit system \<open>A\<close>, every quantity \<open>q\<close> of the closed set
  and every number \<open>x\<close>, the conversion factor from \<open>A\<close> to \<open>A\<close> is 1 and the
  self-conversion of \<open>x\<close> returns \<open>x\<close>.
\<close>

theorem self_conversion_identity:
  assumes "A \<in> set unit_systems" and "q \<in> set quantities"
  shows "(\<exists>f. quantity_map A q = Some f \<and> f A = Inr 1) \<and>
         call A (Some (System A)) (Some q) (Some (Scalar x)) h = Inr (Converted (Scalar x), h)"
proof -
  from assms obtain f where f: "quantity_map A q = Some f" "f A = Inr 1"
    using conv_self unit_systems_nonzero by blast
  from call_scalar [OF f] have
    "call A (Some (System A)) (Some q) (Some (Scalar x)) h = Inr (Converted (Scalar x), h)"
    by simp
  with f show ?thesis by blast
qed

text \<open>
  The theorem at the Nuclear instance and the derived quantity velocity.
\<close>

theorem self_conversion_identity_witness:
  "us_Nuclear \<in> set unit_systems \<and> ''velocity'' \<in> set quantities \<and>
   call us_Nuclear (Some (System us_Nuclear)) (Some ''velocity'') (Some (Scalar 2.5)) [] =
     Inr (Converted (Scalar 2.5), [])"
proof -
  have a: "us_Nuclear \<in> set unit_systems" by (simp add: unit_systems_def)
  have b: "''velocity'' \<in> set quantities" by (simp add: quantities_def)
  show ?thesis
    using a b self_conversion_identity [OF a b, of "2.5" "[]"] by simp
qed

subsection \<open>C5: there and back\<close>

text \<open>
  Claim C5. For every pair of concrete unit systems \<open>A\<close> and \<open>B\<close>, every quantity of
  the closed set and every number \<open>x\<close>: \<open>A\<close> called with target \<open>B\<close> returns some
  \<open>y\<close>, and \<open>B\<close> called with target \<open>A\<close> on \<open>y\<close> returns \<open>x\<close> again (exactly, the
  arithmetic being exact here).
\<close>

theorem round_trip:
  assumes "A \<in> set unit_systems" and "B \<in> set unit_systems" and "q \<in> set quantities"
  shows "\<exists>y. call A (Some (System B)) (Some q) (Some (Scalar x)) h =
               Inr (Converted (Scalar y), h) \<and>
             call B (Some (System A)) (Some q) (Some (Scalar y)) h =
               Inr (Converted (Scalar x), h)"
proof -
  have "nonzero_factors A" "nonzero_factors B"
    using assms by (simp_all add: unit_systems_nonzero)
  with assms(3) obtain f g r where fg: "quantity_map A q = Some f" "quantity_map B q = Some g"
    and r: "r \<noteq> 0" "f B = Inr r" "g A = Inr (1 / r)"
    using conv_ratio by blast
  have 1: "call A (Some (System B)) (Some q) (Some (Scalar x)) h =
             Inr (Converted (Scalar (x * r)), h)"
    using call_scalar [OF fg(1) r(2)] .
  have "call B (Some (System A)) (Some q) (Some (Scalar (x * r))) h =
          Inr (Converted (Scalar (x * r * (1 / r))), h)"
    using call_scalar [OF fg(2) r(3)] .
  with r(1) have 2: "call B (Some (System A)) (Some q) (Some (Scalar (x * r))) h =
          Inr (Converted (Scalar x), h)"
    by simp
  from 1 2 show ?thesis by blast
qed

text \<open>
  The theorem at CGS, SI and mass: 3 g are 0.003 kg, and back.
\<close>

theorem round_trip_witness:
  "us_CGS \<in> set unit_systems \<and> us_SI \<in> set unit_systems \<and> ''mass'' \<in> set quantities \<and>
   call us_CGS (Some (System us_SI)) (Some ''mass'') (Some (Scalar 3)) [] =
     Inr (Converted (Scalar 0.003), []) \<and>
   call us_SI (Some (System us_CGS)) (Some ''mass'') (Some (Scalar 0.003)) [] =
     Inr (Converted (Scalar 3), [])"
proof -
  have a: "us_CGS \<in> set unit_systems" and b: "us_SI \<in> set unit_systems"
    by (simp_all add: unit_systems_def)
  have q: "''mass'' \<in> set quantities" by (simp add: quantities_def)
  have m: "quantity_map us_CGS ''mass'' = Some (conv_mass us_CGS)"
    by (simp add: quantity_map_simps)
  have r: "conv_mass us_CGS us_SI = Inr 0.001"
    by (simp add: conv_mass_def float_div_def system_defs)
  have 1: "call us_CGS (Some (System us_SI)) (Some ''mass'') (Some (Scalar 3)) [] =
     Inr (Converted (Scalar 0.003), [])"
    using call_scalar [OF m r, of 3 "[]"] by simp
  from round_trip [OF a b q, of 3 "[]"] obtain y where
    y: "call us_CGS (Some (System us_SI)) (Some ''mass'') (Some (Scalar 3)) [] =
          Inr (Converted (Scalar y), [])"
       "call us_SI (Some (System us_CGS)) (Some ''mass'') (Some (Scalar y)) [] =
          Inr (Converted (Scalar 3), [])"
    by blast
  from y(1) 1 have "y = 0.003" by simp
  with y(2) 1 a b q show ?thesis by simp
qed

subsection \<open>C6: the container of the result\<close>

text \<open>
  What a conversion with a known quantity and a computed factor returns, by the class
  of the input. An array of one or more dimensions gives a new array of the same shape,
  a list a new list, a non-empty tuple a new tuple, each with the input's elements times
  the factor in the same order; the empty tuple gives itself; an instance of a subclass
  gives what its class builds, or the exception that the class raises. None of these
  assumes that the call succeeds.
\<close>

lemma convert_array:
  assumes "quantity_map A q = Some f" and "f B = Inr r"
    and "a < length h" and "h ! a = NdArray shape xs"
    and "length xs = prod_list shape" and "shape \<noteq> []"
  shows "call A (Some (System B)) (Some q) (Some (Ref a)) h =
           Inr (Converted (Ref (length h)), h @ [NdArray shape (map (\<lambda>v. v * r) xs)])"
  using assms by (simp add: call_def apply_factor_def alloc_def)

lemma convert_list:
  assumes "quantity_map A q = Some f" and "f B = Inr r"
    and "a < length h" and "h ! a = PyList xs"
  shows "call A (Some (System B)) (Some q) (Some (Ref a)) h =
           Inr (Converted (Ref (length h)), h @ [PyList (map (\<lambda>v. v * r) xs)])"
  using assms by (simp add: call_def apply_factor_def alloc_def)

lemma convert_tuple:
  assumes "quantity_map A q = Some f" and "f B = Inr r"
    and "a < length h" and "h ! a = PyTuple xs" and "xs \<noteq> []"
  shows "call A (Some (System B)) (Some q) (Some (Ref a)) h =
           Inr (Converted (Ref (length h)), h @ [PyTuple (map (\<lambda>v. v * r) xs)])"
  using assms by (simp add: call_def apply_factor_def alloc_def)

lemma convert_empty_tuple:
  assumes "quantity_map A q = Some f" and "f B = Inr r"
    and "a < length h" and "h ! a = PyTuple []"
  shows "call A (Some (System B)) (Some q) (Some (Ref a)) h = Inr (Converted (Ref a), h)"
  using assms by (simp add: call_def apply_factor_def)

lemma convert_instance:
  assumes "quantity_map A q = Some f" and "f B = Inr r"
    and "a < length h" and "h ! a = Instance cls xs"
  shows "call A (Some (System B)) (Some q) (Some (Ref a)) h =
           (case cls (map (\<lambda>v. v * r) xs) of
              Inl e \<Rightarrow> Inl e
            | Inr obj \<Rightarrow> Inr (Converted (Ref (length h)), h @ [obj]))"
  using assms by (simp add: call_def apply_factor_def alloc_def split: sum.splits)

text \<open>
  A 0-d array does not give an array: the result is a scalar, and nothing is added to
  the store.
\<close>

lemma convert_zero_dim:
  assumes "quantity_map A q = Some f" and "f B = Inr r"
    and "a < length h" and "h ! a = NdArray [] [x]"
  shows "call A (Some (System B)) (Some q) (Some (Ref a)) h =
           Inr (Converted (Scalar (x * r)), h)"
  using assms by (simp add: call_def apply_factor_def)

text \<open>
  Whatever a successful call returns, the store it leaves begins with the store it
  found: no object that existed before the call, the input among them, is changed.
\<close>

lemma call_extends_store:
  assumes "call self target quantity val h = Inr (res, h')"
  shows "take (length h) h' = h"
proof -
  have ap: "apply_factor v r h = Inr (w, h') \<Longrightarrow> take (length h) h' = h" for v r w
    by (auto simp: apply_factor_def alloc_def
        split: pyvalue.splits container.splits if_splits sum.splits)
  from assms show ?thesis
    by (auto simp: call_def dest: ap
        split: option.splits sum.splits pyobj.splits prod.splits)
qed

text \<open>
  The lemmas at a store with an array, a list, a tuple and the empty tuple, and at an
  instance of a two-field namedtuple, whose class raises TypeError when called with the
  generator alone.
\<close>

lemma convert_examples:
  "call us_CGS (Some (System us_SI)) (Some ''length'') (Some (Ref 1))
     [NdArray [2] [1, 2], PyList [3], PyTuple [4, 5], PyTuple []] =
     Inr (Converted (Ref 4),
          [NdArray [2] [1, 2], PyList [3], PyTuple [4, 5], PyTuple [], PyList [3 / 100]])"
  "call us_CGS (Some (System us_SI)) (Some ''length'') (Some (Ref 2))
     [NdArray [2] [1, 2], PyList [3], PyTuple [4, 5], PyTuple []] =
     Inr (Converted (Ref 4),
          [NdArray [2] [1, 2], PyList [3], PyTuple [4, 5], PyTuple [],
           PyTuple [4 / 100, 5 / 100]])"
  "call us_CGS (Some (System us_SI)) (Some ''length'') (Some (Ref 3))
     [NdArray [2] [1, 2], PyList [3], PyTuple [4, 5], PyTuple []] =
     Inr (Converted (Ref 3), [NdArray [2] [1, 2], PyList [3], PyTuple [4, 5], PyTuple []])"
  "call us_CGS (Some (System us_SI)) (Some ''length'') (Some (Ref 0))
     [Instance (\<lambda>items. Inl TypeError) [1, 2]] = Inl TypeError"
proof -
  have m: "quantity_map us_CGS ''length'' = Some (conv_length us_CGS)"
    by (simp add: quantity_map_simps)
  have r: "conv_length us_CGS us_SI = Inr (1 / 100)"
    by (simp add: conv_length_def float_div_def system_defs)
  show "call us_CGS (Some (System us_SI)) (Some ''length'') (Some (Ref 1))
     [NdArray [2] [1, 2], PyList [3], PyTuple [4, 5], PyTuple []] =
     Inr (Converted (Ref 4),
          [NdArray [2] [1, 2], PyList [3], PyTuple [4, 5], PyTuple [], PyList [3 / 100]])"
    using convert_list [OF m r, of 1 _ "[3]"] by simp
  show "call us_CGS (Some (System us_SI)) (Some ''length'') (Some (Ref 2))
     [NdArray [2] [1, 2], PyList [3], PyTuple [4, 5], PyTuple []] =
     Inr (Converted (Ref 4),
          [NdArray [2] [1, 2], PyList [3], PyTuple [4, 5], PyTuple [],
           PyTuple [4 / 100, 5 / 100]])"
    using convert_tuple [OF m r, of 2 _ "[4, 5]"] by simp
  show "call us_CGS (Some (System us_SI)) (Some ''length'') (Some (Ref 3))
     [NdArray [2] [1, 2], PyList [3], PyTuple [4, 5], PyTuple []] =
     Inr (Converted (Ref 3), [NdArray [2] [1, 2], PyList [3], PyTuple [4, 5], PyTuple []])"
    using convert_empty_tuple [OF m r, of 3] by simp
  show "call us_CGS (Some (System us_SI)) (Some ''length'') (Some (Ref 0))
     [Instance (\<lambda>items. Inl TypeError) [1, 2]] = Inl TypeError"
    using convert_instance [OF m r, of 0 _ "\<lambda>items. Inl TypeError" "[1, 2]"] by simp
qed

text \<open>
  Claim C6 says that the container type of the output matches the input and that an
  array input yields an array of the same shape; the docstring of \<^verbatim>\<open>UnitSystem\<close> calls
  the conversion type-preserving, and the comment on the last lines of \<^verbatim>\<open>__call__\<close>
  says "preserve input type". The code does not do this for a 0-d array: converting the
  0-d array holding 2 from CGS to SI as a length returns the scalar 0.02, not an array,
  whereas the one-element array of shape (1,) holding 2 comes back as a new array of
  shape (1,).
\<close>

theorem zero_dim_array_yields_scalar:
  "call us_CGS (Some (System us_SI)) (Some ''length'') (Some (Ref 0)) [NdArray [] [2]] =
     Inr (Converted (Scalar (2 / 100)), [NdArray [] [2]]) \<and>
   call us_CGS (Some (System us_SI)) (Some ''length'') (Some (Ref 0)) [NdArray [1] [2]] =
     Inr (Converted (Ref 1), [NdArray [1] [2], NdArray [1] [2 / 100]])"
proof -
  have m: "quantity_map us_CGS ''length'' = Some (conv_length us_CGS)"
    by (simp add: quantity_map_simps)
  have r: "conv_length us_CGS us_SI = Inr (1 / 100)"
    by (simp add: conv_length_def float_div_def system_defs)
  from convert_zero_dim [OF m r, of 0 "[NdArray [] [2]]" 2]
    convert_array [OF m r, of 0 "[NdArray [1] [2]]" "[1]" "[2]"]
  show ?thesis by simp
qed

subsection \<open>C7: the derived quantities\<close>

text \<open>
  Claim C7. For every source \<open>A\<close> and target \<open>B\<close> among the concrete unit systems,
  velocity and entropy are converted by methods that compute their factor from base
  factors: the velocity factor is the length ratio times the inverse time ratio, and
  the entropy factor is the ratio of the Boltzmann constants.
\<close>

theorem derived_factors:
  assumes "A \<in> set unit_systems" and "B \<in> set unit_systems"
  shows "quantity_map A ''velocity'' = Some (conv_velocity A) \<and>
         conv_velocity A B =
           Inr ((value (length' B) / value (length' A)) * (value (time A) / value (time B))) \<and>
         quantity_map A ''entropy'' = Some (conv_entropy A) \<and>
         conv_entropy A B = Inr (value (kb B) / value (kb A))"
proof -
  have nz: "nonzero_factors A" "nonzero_factors B"
    using assms by (simp_all add: unit_systems_nonzero)
  then have "value (length' A) \<noteq> 0" "value (time B) \<noteq> 0" "value (kb A) \<noteq> 0"
    by (simp_all add: nonzero_factors_def)
  then show ?thesis
    by (simp add: velocity_ratio entropy_ratio quantity_map_simps)
qed

text \<open>
  The theorem from CGS to SI.
\<close>

theorem derived_factors_witness:
  "us_CGS \<in> set unit_systems \<and> us_SI \<in> set unit_systems \<and>
   conv_velocity us_CGS us_SI = Inr (1 / 100) \<and>
   conv_entropy us_CGS us_SI = Inr (1 / 10 ^ 7)"
proof -
  have a: "us_CGS \<in> set unit_systems" and b: "us_SI \<in> set unit_systems"
    by (simp_all add: unit_systems_def)
  show ?thesis
    using a b derived_factors [OF a b] by (simp add: system_defs)
qed

subsection \<open>C8: an unknown quantity\<close>

text \<open>
  Claim C8. For every pair of unit systems, every quantity name outside the closed set
  and every value (\<^verbatim>\<open>None\<close> included), the call raises the ValueError
  "Unknown quantity '...'" and returns nothing.
\<close>

theorem unknown_quantity:
  assumes "q \<notin> set quantities"
  shows "call A (Some (System B)) (Some q) val h =
           Inl (ValueError (''Unknown quantity '' @ [CHR 0x27] @ q @ [CHR 0x27]))"
  using assms by (simp add: call_def quantity_map_None)

text \<open>
  The theorem at the name bogus, from CGS to SI.
\<close>

theorem unknown_quantity_witness:
  "''bogus'' \<notin> set quantities \<and>
   call us_CGS (Some (System us_SI)) (Some ''bogus'') (Some (Scalar 1)) [] =
     Inl (ValueError (''Unknown quantity '' @ [CHR 0x27] @ ''bogus'' @ [CHR 0x27]))"
proof -
  have q: "''bogus'' \<notin> set quantities" by (simp add: quantities_def)
  from q unknown_quantity [OF q, of us_CGS us_SI "Some (Scalar 1)" "[]"] show ?thesis
    by simp
qed

subsection \<open>C9: attribute access on a proxy\<close>

text \<open>
  Claim C9, as amended. For every ConversionProxy and every attribute name that the
  ordinary lookup does not resolve (any name but source_unit, target_unit and the names
  of the class), attribute access succeeds and returns the one-argument converter, which
  is the call of the source with the proxy's target and the name as quantity. For such a
  name outside the closed quantity set, the unknown-quantity error is raised when the
  converter is called, whatever the value.
\<close>

theorem proxy_attribute_lazy:
  assumes "name \<noteq> ''source_unit''" and "name \<noteq> ''target_unit''" and "\<not> class_attr name"
  shows "getattribute class_attr p name = Converter (getattr p name) \<and>
         getattr p name val h =
           call (source_unit p) (Some (System (target_unit p))) (Some name) val h \<and>
         (name \<notin> set quantities \<longrightarrow>
            getattr p name val h =
              Inl (ValueError (''Unknown quantity '' @ [CHR 0x27] @ name @ [CHR 0x27])))"
  using assms by (simp add: getattribute_def getattr_def call_def quantity_map_None)

text \<open>
  The theorem at the name bogus on the proxy from CGS to SI.
\<close>

theorem proxy_attribute_lazy_witness:
  "''bogus'' \<noteq> ''source_unit'' \<and> ''bogus'' \<noteq> ''target_unit'' \<and>
   ''bogus'' \<notin> set [''__init__'', ''__getattr__''] \<and> ''bogus'' \<notin> set quantities \<and>
   getattribute (\<lambda>n. n \<in> set [''__init__'', ''__getattr__''])
       \<lparr>source_unit = us_CGS, target_unit = us_SI\<rparr> ''bogus'' =
     Converter (getattr \<lparr>source_unit = us_CGS, target_unit = us_SI\<rparr> ''bogus'') \<and>
   getattr \<lparr>source_unit = us_CGS, target_unit = us_SI\<rparr> ''bogus'' (Some (Scalar 1)) [] =
     Inl (ValueError (''Unknown quantity '' @ [CHR 0x27] @ ''bogus'' @ [CHR 0x27]))"
proof -
  have a: "''bogus'' \<noteq> ''source_unit''" and b: "''bogus'' \<noteq> ''target_unit''"
    and d: "''bogus'' \<notin> set [''__init__'', ''__getattr__'']"
    and q: "''bogus'' \<notin> set quantities"
    by (simp_all add: quantities_def)
  note T = proxy_attribute_lazy [where class_attr = "\<lambda>n. n \<in> set [''__init__'', ''__getattr__'']"
      and p = "\<lparr>source_unit = us_CGS, target_unit = us_SI\<rparr>"
      and val = "Some (Scalar 1)" and h = "[]", OF a b d]
  from T [THEN conjunct1] T [THEN conjunct2, THEN conjunct2] a b d q
  show ?thesis by simp
qed

text \<open>
  Claim C9 as stated speaks of every attribute name. On the proxy that CGS returns for
  the target SI, the name source_unit is found on the instance: the access returns the
  CGS system, not a converter, and calling that with a value fails in the constructor
  of a proxy, not with the unknown-quantity error.
\<close>

theorem proxy_attribute_counterexample:
  "call us_CGS (Some (System us_SI)) None None [] =
     Inr (Proxy \<lparr>source_unit = us_CGS, target_unit = us_SI\<rparr>, []) \<and>
   getattribute (\<lambda>n. False) \<lparr>source_unit = us_CGS, target_unit = us_SI\<rparr> ''source_unit'' =
     Endpoint us_CGS \<and>
   call_endpoint us_CGS (Some (Scalar 1)) [] =
     Inl (ValueError ''target_unit must be a UnitSystem'')"
  by (simp add: call_def ConversionProxy_init_def getattribute_def call_endpoint_def)

subsection \<open>C10: temperature and chemical potential in GeometricSolar and Nuclear\<close>

text \<open>
  Claim C10. In GeometricSolar and in Nuclear the temperature and chemical_potential
  factors all have the value of the CGS Boltzmann constant divided by the CGS MeV, and
  within each system the two factors are equal. So the conversion factors of both
  quantities between the two systems are 1 in both directions, and the conversions
  return every number unchanged.
\<close>

theorem GeometricSolar_Nuclear_thermal:
  "value (temperature us_GeometricSolar) = value (kb CGS) / value (MeV CGS) \<and>
   value (chemical_potential us_GeometricSolar) = value (kb CGS) / value (MeV CGS) \<and>
   value (temperature us_Nuclear) = value (kb CGS) / value (MeV CGS) \<and>
   value (chemical_potential us_Nuclear) = value (kb CGS) / value (MeV CGS) \<and>
   temperature us_GeometricSolar = chemical_potential us_GeometricSolar \<and>
   temperature us_Nuclear = chemical_potential us_Nuclear \<and>
   conv_temperature us_GeometricSolar us_Nuclear = Inr 1 \<and>
   conv_temperature us_Nuclear us_GeometricSolar = Inr 1 \<and>
   conv_chemical_potential us_GeometricSolar us_Nuclear = Inr 1 \<and>
   conv_chemical_potential us_Nuclear us_GeometricSolar = Inr 1 \<and>
   call us_GeometricSolar (Some (System us_Nuclear)) (Some ''temperature'') (Some (Scalar x)) h =
     Inr (Converted (Scalar x), h) \<and>
   call us_Nuclear (Some (System us_GeometricSolar)) (Some ''temperature'') (Some (Scalar x)) h =
     Inr (Converted (Scalar x), h) \<and>
   call us_GeometricSolar (Some (System us_Nuclear)) (Some ''chemical_potential'')
       (Some (Scalar x)) h =
     Inr (Converted (Scalar x), h) \<and>
   call us_Nuclear (Some (System us_GeometricSolar)) (Some ''chemical_potential'')
       (Some (Scalar x)) h =
     Inr (Converted (Scalar x), h)"
proof -
  have v: "value (temperature us_GeometricSolar) = value (kb CGS) / value (MeV CGS)"
    "value (chemical_potential us_GeometricSolar) = value (kb CGS) / value (MeV CGS)"
    "value (temperature us_Nuclear) = value (kb CGS) / value (MeV CGS)"
    "value (chemical_potential us_Nuclear) = value (kb CGS) / value (MeV CGS)"
    by (simp_all add: us_GeometricSolar_def us_Nuclear_def GeometricSolar_def Nuclear_def
        Let_def)
  have e: "temperature us_GeometricSolar = chemical_potential us_GeometricSolar"
    "temperature us_Nuclear = chemical_potential us_Nuclear"
    by (simp_all add: us_GeometricSolar_def us_Nuclear_def GeometricSolar_def Nuclear_def
        Let_def)
  have nz: "value (kb CGS) / value (MeV CGS) \<noteq> 0"
    by (simp add: CGS_def)
  have t: "conv_temperature us_GeometricSolar us_Nuclear = Inr 1"
    "conv_temperature us_Nuclear us_GeometricSolar = Inr 1"
    using nz by (simp_all add: conv_temperature_def float_div_def v)
  have m: "conv_chemical_potential us_GeometricSolar us_Nuclear = Inr 1"
    "conv_chemical_potential us_Nuclear us_GeometricSolar = Inr 1"
    using nz by (simp_all add: conv_chemical_potential_def float_div_def v)
  have ct: "call us_GeometricSolar (Some (System us_Nuclear)) (Some ''temperature'')
              (Some (Scalar x)) h = Inr (Converted (Scalar x), h)"
    "call us_Nuclear (Some (System us_GeometricSolar)) (Some ''temperature'')
              (Some (Scalar x)) h = Inr (Converted (Scalar x), h)"
    using call_scalar [OF quantity_map_simps(9) t(1), of x h]
      call_scalar [OF quantity_map_simps(9) t(2), of x h] by simp_all
  have cm: "call us_GeometricSolar (Some (System us_Nuclear)) (Some ''chemical_potential'')
              (Some (Scalar x)) h = Inr (Converted (Scalar x), h)"
    "call us_Nuclear (Some (System us_GeometricSolar)) (Some ''chemical_potential'')
              (Some (Scalar x)) h = Inr (Converted (Scalar x), h)"
    using call_scalar [OF quantity_map_simps(10) m(1), of x h]
      call_scalar [OF quantity_map_simps(10) m(2), of x h] by simp_all
  from v e t m ct cm show ?thesis by blast
qed

text \<open>
  The theorem at the number 7: nothing is rescaled.
\<close>

theorem GeometricSolar_Nuclear_thermal_witness:
  "call us_GeometricSolar (Some (System us_Nuclear)) (Some ''temperature'') (Some (Scalar 7)) [] =
     Inr (Converted (Scalar 7), []) \<and>
   call us_Nuclear (Some (System us_GeometricSolar)) (Some ''chemical_potential'')
       (Some (Scalar 7)) [] =
     Inr (Converted (Scalar 7), [])"
  using GeometricSolar_Nuclear_thermal [of 7 "[]"] by simp

end
